theory Spec2Isabelle
  imports Complex_Main "HOL-Library.Log_Nat"
begin

section \<open>Common values\<close>

text \<open>
  The handlers of \<^verbatim>\<open>api/endpoints/payments.py\<close> and
  \<^verbatim>\<open>api/endpoints/timetables.py\<close> read rows, change them and commit. A handler is
  modelled as a function from the stored tables and the request to a pair: what the
  handler returns (or the exception it leaves with) and the stored tables afterwards.
  An exception that leaves the handler before \<^verbatim>\<open>db.commit()\<close> succeeds leaves the tables
  as they were.
\<close>

datatype error =
    HTTPException nat string
  | IntegrityError
  | TypeError

text \<open>
  A field of an update schema (\<^verbatim>\<open>Optional[T] = None\<close>) is in one of three states:
  it is not in the request, it is in the request as \<^verbatim>\<open>null\<close>, or it is in the request
  with a value. \<^verbatim>\<open>slot_in.f\<close> reads \<^verbatim>\<open>None\<close> in the first two, while
  \<^verbatim>\<open>dict(exclude_unset=True)\<close> has a key for the last two.
\<close>

datatype 'a field = Unset | Given "'a option"

fun attr :: "'a field \<Rightarrow> 'a option" where
  "attr Unset = None"
| "attr (Given v) = v"

fun in_update_data :: "'a field \<Rightarrow> bool" where
  "in_update_data Unset = False"
| "in_update_data (Given v) = True"

text \<open>\<^verbatim>\<open>setattr\<close> on a nullable column: the key's value, \<^verbatim>\<open>None\<close> included.\<close>

fun setattr_nullable :: "'a field \<Rightarrow> 'a option \<Rightarrow> 'a option" where
  "setattr_nullable Unset old = old"
| "setattr_nullable (Given v) old = v"

text \<open>
  \<^verbatim>\<open>setattr\<close> on a column declared \<^verbatim>\<open>nullable=False\<close>: a value replaces the old one;
  \<^verbatim>\<open>None\<close> makes the commit fail, which \<open>sets_null\<close> detects before the row is built.
\<close>

fun setattr_required :: "'a field \<Rightarrow> 'a \<Rightarrow> 'a" where
  "setattr_required (Given (Some v)) old = v"
| "setattr_required f old = old"

fun sets_null :: "'a field \<Rightarrow> bool" where
  "sets_null (Given None) = True"
| "sets_null f = False"


section \<open>Binary floating point\<close>

text \<open>
  The amounts are Python \<^verbatim>\<open>float\<close>s (\<^verbatim>\<open>Float\<close> columns, \<^verbatim>\<open>float\<close> fields of the
  schemas): IEEE binary64. A float is modelled by the rational number it stands for, and
  every operation rounds its exact result to 53 significant bits, to the nearest such
  number, a tie going to the even significand. A number written in a request, such as
  \<^verbatim>\<open>0.1\<close>, is the float \<open>fl (1 / 10)\<close>. Comparisons of floats are comparisons of the
  rationals. The exponent is not bounded: a result of magnitude \<open>2 ^ 1024\<close> or more
  (infinity in binary64) or below \<open>2 ^ - 1022\<close> (a subnormal number), and the values
  infinity and NaN, are outside the model.
\<close>

type_synonym float = rat

text \<open>The exponent of the leading bit of a positive rational: \<open>2 ^ ilog2 q \<le> q < 2 ^ (ilog2 q + 1)\<close>.\<close>

definition ilog2 :: "rat \<Rightarrow> int" where
  "ilog2 q = (if 1 \<le> q then bitlen \<lfloor>q\<rfloor> - 1 else - bitlen (\<lceil>1 / q\<rceil> - 1))"

definition round_half_even :: "rat \<Rightarrow> int" where
  "round_half_even x =
     (let f = \<lfloor>x\<rfloor>; d = x - of_int f
      in if d < 1 / 2 then f
         else if d > 1 / 2 then f + 1
         else if even f then f else f + 1)"

text \<open>Rounding to a float: the significand is an integer from \<open>2 ^ 52\<close> to \<open>2 ^ 53\<close>.\<close>

definition fl :: "rat \<Rightarrow> float" where
  "fl q = (if q = 0 then 0
           else let e = ilog2 \<bar>q\<bar> - 52
                in sgn q * of_int (round_half_even (\<bar>q\<bar> / 2 powi e)) * 2 powi e)"

definition fadd :: "float \<Rightarrow> float \<Rightarrow> float" where
  "fadd x y = fl (x + y)"

definition fsub :: "float \<Rightarrow> float \<Rightarrow> float" where
  "fsub x y = fl (x - y)"

section \<open>Fees and payments\<close>

datatype PaymentStatus = PENDING | PAID | PARTIALLY_PAID | OVERDUE | CANCELLED | REFUNDED

text \<open>
  The columns of \<^verbatim>\<open>FeeRecord\<close> and \<^verbatim>\<open>Payment\<close> that the handlers compute with. The others
  (\<^verbatim>\<open>academic_year\<close>, \<^verbatim>\<open>term\<close>, \<^verbatim>\<open>due_date\<close>, \<^verbatim>\<open>student_id\<close>, \<^verbatim>\<open>fee_structure_id\<close>;
  \<^verbatim>\<open>payment_date\<close>, \<^verbatim>\<open>payment_method\<close>, \<^verbatim>\<open>transaction_id\<close>, \<^verbatim>\<open>receipt_number\<close>, \<^verbatim>\<open>notes\<close>)
  are copied from the request and never read. The primary key is the key of the table.
  \<^verbatim>\<open>paid_amount\<close> is the one column of the four that is not declared \<^verbatim>\<open>nullable=False\<close>,
  so a row can hold \<^verbatim>\<open>None\<close> there.
\<close>

record FeeRecord =
  total_amount :: float
  paid_amount :: "float option"
  balance :: float
  status :: PaymentStatus

text \<open>\<^verbatim>\<open>FeeRecordCreate\<close>: every field is a value (\<^verbatim>\<open>paid_amount: float = 0.0\<close>).\<close>

record FeeRecordCreate =
  new_total_amount :: float
  new_paid_amount :: float
  new_balance :: float
  new_status :: PaymentStatus

record FeeRecordUpdate =
  upd_total_amount :: "float field"
  upd_paid_amount :: "float field"
  upd_balance :: "float field"
  upd_status :: "PaymentStatus field"

record Payment =
  amount :: float
  fee_record_id :: int

record PaymentUpdate =
  upd_amount :: "float field"

record fee_db =
  fee_records :: "int \<rightharpoonup> FeeRecord"
  payments :: "int \<rightharpoonup> Payment"
  next_fee_record_id :: int
  next_payment_id :: int

definition create_fee_record ::
  "fee_db \<Rightarrow> FeeRecordCreate \<Rightarrow> (error + int \<times> FeeRecord) \<times> fee_db" where
  "create_fee_record db fee_record_in =
     (let new_id = next_fee_record_id db;
          fee_record = \<lparr>total_amount = new_total_amount fee_record_in,
                        paid_amount = Some (new_paid_amount fee_record_in),
                        balance = new_balance fee_record_in,
                        status = new_status fee_record_in\<rparr>
      in (Inr (new_id, fee_record),
          db\<lparr>fee_records := (fee_records db)(new_id \<mapsto> fee_record),
             next_fee_record_id := new_id + 1\<rparr>))"

text \<open>
  \<^verbatim>\<open>update_fee_record\<close>: every key of \<^verbatim>\<open>update_data\<close> is assigned, \<^verbatim>\<open>None\<close> included. The
  commit fails when \<^verbatim>\<open>None\<close> was assigned to a \<^verbatim>\<open>nullable=False\<close> column; it stores
  \<^verbatim>\<open>None\<close> in \<^verbatim>\<open>paid_amount\<close>. What becomes of the returned row in the response is not
  modelled.
\<close>

definition update_fee_record ::
  "fee_db \<Rightarrow> int \<Rightarrow> FeeRecordUpdate \<Rightarrow> (error + int \<times> FeeRecord) \<times> fee_db" where
  "update_fee_record db fee_record_id' fee_record_in =
     (case fee_records db fee_record_id' of
        None \<Rightarrow> (Inl (HTTPException 404 ''Fee record not found''), db)
      | Some fee_record \<Rightarrow>
          if sets_null (upd_total_amount fee_record_in) \<or>
             sets_null (upd_balance fee_record_in) \<or>
             sets_null (upd_status fee_record_in) then
            (Inl IntegrityError, db)
          else
            (let fee_record' = fee_record
                   \<lparr>total_amount :=
                      setattr_required (upd_total_amount fee_record_in) (total_amount fee_record),
                    paid_amount :=
                      setattr_nullable (upd_paid_amount fee_record_in) (paid_amount fee_record),
                    balance :=
                      setattr_required (upd_balance fee_record_in) (balance fee_record),
                    status :=
                      setattr_required (upd_status fee_record_in) (status fee_record)\<rparr>
             in (Inr (fee_record_id', fee_record'),
                 db\<lparr>fee_records := (fee_records db)(fee_record_id' \<mapsto> fee_record')\<rparr>)))"

text \<open>
  The block \<^verbatim>\<open># Update fee record\<close> of \<^verbatim>\<open>create_payment\<close> (lines 495 to 502): no
  \<^verbatim>\<open>else\<close> branch. \<^verbatim>\<open>None += amount\<close> raises \<^verbatim>\<open>TypeError\<close>.
\<close>

definition create_payment_fee_record :: "FeeRecord \<Rightarrow> float \<Rightarrow> error + FeeRecord" where
  "create_payment_fee_record fee_record amount_in =
     (case paid_amount fee_record of
        None \<Rightarrow> Inl TypeError
      | Some paid_before \<Rightarrow>
          (let paid = fadd paid_before amount_in;
               bal = fsub (total_amount fee_record) paid
           in Inr (fee_record\<lparr>paid_amount := Some paid, balance := bal,
                     status := (if bal \<le> 0 then PAID
                                else if paid > 0 then PARTIALLY_PAID
                                else status fee_record)\<rparr>)))"

definition create_payment ::
  "fee_db \<Rightarrow> Payment \<Rightarrow> (error + int \<times> Payment) \<times> fee_db" where
  "create_payment db payment_in =
     (case fee_records db (fee_record_id payment_in) of
        None \<Rightarrow> (Inl (HTTPException 404 ''Fee record not found''), db)
      | Some fee_record \<Rightarrow>
          (case create_payment_fee_record fee_record (amount payment_in) of
             Inl e \<Rightarrow> (Inl e, db)
           | Inr fee_record' \<Rightarrow>
               (let new_id = next_payment_id db
                in (Inr (new_id, payment_in),
                    db\<lparr>fee_records := (fee_records db)(fee_record_id payment_in \<mapsto> fee_record'),
                       payments := (payments db)(new_id \<mapsto> payment_in),
                       next_payment_id := new_id + 1\<rparr>))))"

text \<open>The block \<^verbatim>\<open># Update fee record\<close> of \<^verbatim>\<open>update_payment\<close> (lines 573 to 582).\<close>

definition update_payment_fee_record ::
  "FeeRecord \<Rightarrow> float \<Rightarrow> float \<Rightarrow> error + FeeRecord" where
  "update_payment_fee_record fee_record original_amount new_amount =
     (case paid_amount fee_record of
        None \<Rightarrow> Inl TypeError
      | Some paid_before \<Rightarrow>
          (let paid = fadd (fsub paid_before original_amount) new_amount;
               bal = fsub (total_amount fee_record) paid
           in Inr (fee_record\<lparr>paid_amount := Some paid, balance := bal,
                     status := (if bal \<le> 0 then PAID
                                else if paid > 0 then PARTIALLY_PAID
                                else PENDING)\<rparr>)))"

text \<open>
  \<^verbatim>\<open>update_payment\<close>. With \<^verbatim>\<open>amount\<close> sent as \<^verbatim>\<open>null\<close> the comparison with the original
  amount is true; the sum with \<^verbatim>\<open>None\<close> then raises \<^verbatim>\<open>TypeError\<close> when the fee record is
  found, and otherwise the commit fails on the \<^verbatim>\<open>nullable=False\<close> column.
\<close>

definition update_payment ::
  "fee_db \<Rightarrow> int \<Rightarrow> PaymentUpdate \<Rightarrow> (error + int \<times> Payment) \<times> fee_db" where
  "update_payment db payment_id payment_in =
     (case payments db payment_id of
        None \<Rightarrow> (Inl (HTTPException 404 ''Payment not found''), db)
      | Some payment \<Rightarrow>
          (let original_amount = amount payment
           in case upd_amount payment_in of
                Unset \<Rightarrow> (Inr (payment_id, payment), db)
              | Given None \<Rightarrow>
                  (case fee_records db (fee_record_id payment) of
                     Some fee_record \<Rightarrow> (Inl TypeError, db)
                   | None \<Rightarrow> (Inl IntegrityError, db))
              | Given (Some new_amount) \<Rightarrow>
                  (let payment' = payment\<lparr>amount := new_amount\<rparr>;
                       db' = db\<lparr>payments := (payments db)(payment_id \<mapsto> payment')\<rparr>
                   in if new_amount \<noteq> original_amount then
                        (case fee_records db (fee_record_id payment) of
                           Some fee_record \<Rightarrow>
                             (case update_payment_fee_record fee_record
                                     original_amount new_amount of
                                Inl e \<Rightarrow> (Inl e, db)
                              | Inr fee_record' \<Rightarrow>
                                  (Inr (payment_id, payment'),
                                   db'\<lparr>fee_records := (fee_records db)
                                          (fee_record_id payment \<mapsto> fee_record')\<rparr>))
                         | None \<Rightarrow> (Inr (payment_id, payment'), db'))
                      else (Inr (payment_id, payment'), db'))))"

text \<open>
  The block \<^verbatim>\<open># Update fee record\<close> of \<^verbatim>\<open>delete_payment\<close> (lines 611 to 618): two
  branches only.
\<close>

definition delete_payment_fee_record :: "FeeRecord \<Rightarrow> float \<Rightarrow> error + FeeRecord" where
  "delete_payment_fee_record fee_record amount_in =
     (case paid_amount fee_record of
        None \<Rightarrow> Inl TypeError
      | Some paid_before \<Rightarrow>
          (let paid = fsub paid_before amount_in;
               bal = fsub (total_amount fee_record) paid
           in Inr (fee_record\<lparr>paid_amount := Some paid, balance := bal,
                     status := (if paid \<le> 0 then PENDING else PARTIALLY_PAID)\<rparr>)))"

definition delete_payment ::
  "fee_db \<Rightarrow> int \<Rightarrow> (error + int \<times> Payment) \<times> fee_db" where
  "delete_payment db payment_id =
     (case payments db payment_id of
        None \<Rightarrow> (Inl (HTTPException 404 ''Payment not found''), db)
      | Some payment \<Rightarrow>
          (case fee_records db (fee_record_id payment) of
             None \<Rightarrow>
               (Inr (payment_id, payment),
                db\<lparr>payments := (payments db)(payment_id := None)\<rparr>)
           | Some fee_record \<Rightarrow>
               (case delete_payment_fee_record fee_record (amount payment) of
                  Inl e \<Rightarrow> (Inl e, db)
                | Inr fee_record' \<Rightarrow>
                    (Inr (payment_id, payment),
                     db\<lparr>fee_records := (fee_records db)(fee_record_id payment \<mapsto> fee_record'),
                        payments := (payments db)(payment_id := None)\<rparr>))))"

text \<open>
  A sequence of payment events on the stored tables: each event is one call of a payment
  handler, whatever it returns.
\<close>

datatype payment_event =
    NewPayment Payment
  | AmendedPayment int PaymentUpdate
  | RemovedPayment int

fun apply_event :: "fee_db \<Rightarrow> payment_event \<Rightarrow> fee_db" where
  "apply_event db (NewPayment payment_in) = snd (create_payment db payment_in)"
| "apply_event db (AmendedPayment payment_id payment_in) =
     snd (update_payment db payment_id payment_in)"
| "apply_event db (RemovedPayment payment_id) = snd (delete_payment db payment_id)"

definition apply_events :: "fee_db \<Rightarrow> payment_event list \<Rightarrow> fee_db" where
  "apply_events db events = foldl apply_event db events"

text \<open>
  An event is applied to the fee record \<open>k\<close> when it is a new payment for \<open>k\<close>, or
  amends or removes a stored payment of \<open>k\<close>; a sequence is, when each event is in the
  tables the events before it leave.
\<close>

fun event_on :: "fee_db \<Rightarrow> int \<Rightarrow> payment_event \<Rightarrow> bool" where
  "event_on db k (NewPayment payment_in) = (fee_record_id payment_in = k)"
| "event_on db k (AmendedPayment payment_id payment_in) =
     (case payments db payment_id of
        None \<Rightarrow> False
      | Some payment \<Rightarrow> fee_record_id payment = k)"
| "event_on db k (RemovedPayment payment_id) =
     (case payments db payment_id of
        None \<Rightarrow> False
      | Some payment \<Rightarrow> fee_record_id payment = k)"

fun events_on :: "fee_db \<Rightarrow> int \<Rightarrow> payment_event list \<Rightarrow> bool" where
  "events_on db k [] = True"
| "events_on db k (e # es) = (event_on db k e \<and> events_on (apply_event db e) k es)"

text \<open>
  The invariant of the specification, for the fee record stored under one key:
  \<^verbatim>\<open>balance == total_amount - paid_amount\<close>, the difference being the float one.
\<close>

definition balance_consistent :: "fee_db \<Rightarrow> int \<Rightarrow> bool" where
  "balance_consistent db k =
     (case fee_records db k of
        None \<Rightarrow> False
      | Some r \<Rightarrow>
          (case paid_amount r of
             None \<Rightarrow> False
           | Some paid \<Rightarrow> balance r = fsub (total_amount r) paid))"

section \<open>Timetable slots\<close>

datatype DayOfWeek = MONDAY | TUESDAY | WEDNESDAY | THURSDAY | FRIDAY | SATURDAY | SUNDAY

text \<open>A naive \<^verbatim>\<open>datetime.time\<close>, as the minutes since midnight; \<^verbatim>\<open>time(0, 0)\<close> is \<open>0\<close>.\<close>

type_synonym time = nat

record TimetableSlotBase =
  day :: DayOfWeek
  start_time :: time
  end_time :: time
  room_number :: "string option"
  timetable_id :: int
  subject_id :: int
  teacher_id :: "int option"

record TimetableSlot = TimetableSlotBase +
  slot_id :: int

record TimetableSlotUpdate =
  upd_day :: "DayOfWeek field"
  upd_start_time :: "time field"
  upd_end_time :: "time field"
  upd_room_number :: "string field"
  upd_subject_id :: "int field"
  upd_teacher_id :: "int field"

text \<open>
  The rows of \<^verbatim>\<open>timetables\<close> (their keys only: the handlers test existence) and of
  \<^verbatim>\<open>timetable_slots\<close>.
\<close>

record timetable_db =
  timetables :: "int list"
  slots :: "TimetableSlot list"
  next_slot_id :: int

text \<open>The query of \<^verbatim>\<open>create_timetable_slot\<close> (lines 215 to 220).\<close>

definition create_conflicts :: "TimetableSlot list \<Rightarrow> TimetableSlotBase \<Rightarrow> TimetableSlot list" where
  "create_conflicts rows slot_in =
     filter (\<lambda>r. timetable_id r = timetable_id slot_in \<and>
                 day r = day slot_in \<and>
                 start_time r < end_time slot_in \<and>
                 end_time r > start_time slot_in) rows"

definition create_timetable_slot ::
  "timetable_db \<Rightarrow> TimetableSlotBase \<Rightarrow> (error + TimetableSlot) \<times> timetable_db" where
  "create_timetable_slot db slot_in =
     (if timetable_id slot_in \<notin> set (timetables db) then
        (Inl (HTTPException 404 ''Timetable not found''), db)
      else if create_conflicts (slots db) slot_in \<noteq> [] then
        (Inl (HTTPException 400 ''Time slot conflicts with existing slots''), db)
      else
        (let slot = \<lparr>day = day slot_in, start_time = start_time slot_in,
                     end_time = end_time slot_in, room_number = room_number slot_in,
                     timetable_id = timetable_id slot_in, subject_id = subject_id slot_in,
                     teacher_id = teacher_id slot_in, slot_id = next_slot_id db\<rparr>
         in (Inr slot, db\<lparr>slots := slots db @ [slot], next_slot_id := next_slot_id db + 1\<rparr>)))"

text \<open>
  Truth values of Python objects. A member of an \<^verbatim>\<open>Enum\<close> without \<^verbatim>\<open>__bool__\<close> is true.
  A \<^verbatim>\<open>datetime.time\<close> is true whatever its value, midnight included, from Python 3.5 on;
  the source needs a later Python than that (\<^verbatim>\<open>async def\<close>, f-strings).
\<close>

definition truthy_day :: "DayOfWeek \<Rightarrow> bool" where
  "truthy_day d = True"

definition truthy_time :: "time \<Rightarrow> bool" where
  "truthy_time t = True"

fun py_bool :: "('a \<Rightarrow> bool) \<Rightarrow> 'a option \<Rightarrow> bool" where
  "py_bool truthy None = False"
| "py_bool truthy (Some v) = truthy v"

text \<open>\<^verbatim>\<open>x or y\<close>, for an optional \<open>x\<close>.\<close>

fun py_or :: "('a \<Rightarrow> bool) \<Rightarrow> 'a option \<Rightarrow> 'a \<Rightarrow> 'a" where
  "py_or truthy None y = y"
| "py_or truthy (Some v) y = (if truthy v then v else y)"

text \<open>Line 293: \<^verbatim>\<open>if slot_in.day or slot_in.start_time or slot_in.end_time\<close>.\<close>

definition conflict_check_runs :: "TimetableSlotUpdate \<Rightarrow> bool" where
  "conflict_check_runs slot_in =
     (py_bool truthy_day (attr (upd_day slot_in)) \<or>
      py_bool truthy_time (attr (upd_start_time slot_in)) \<or>
      py_bool truthy_time (attr (upd_end_time slot_in)))"

text \<open>Lines 294 to 296: the day and times the query is asked about.\<close>

definition update_candidate :: "TimetableSlot \<Rightarrow> TimetableSlotUpdate \<Rightarrow> DayOfWeek \<times> time \<times> time" where
  "update_candidate slot slot_in =
     (py_or truthy_day (attr (upd_day slot_in)) (day slot),
      py_or truthy_time (attr (upd_start_time slot_in)) (start_time slot),
      py_or truthy_time (attr (upd_end_time slot_in)) (end_time slot))"

text \<open>The query of \<^verbatim>\<open>update_timetable_slot\<close> (lines 298 to 304).\<close>

definition update_conflicts ::
  "TimetableSlot list \<Rightarrow> int \<Rightarrow> int \<Rightarrow> DayOfWeek \<times> time \<times> time \<Rightarrow> TimetableSlot list" where
  "update_conflicts rows slot_id' timetable_id' candidate =
     (case candidate of (day', start_time', end_time') \<Rightarrow>
        filter (\<lambda>r. slot_id r \<noteq> slot_id' \<and>
                    timetable_id r = timetable_id' \<and>
                    day r = day' \<and>
                    start_time r < end_time' \<and>
                    end_time r > start_time') rows)"

text \<open>
  Lines 315 to 317, for a request none of whose \<^verbatim>\<open>nullable=False\<close> columns is sent as
  \<^verbatim>\<open>null\<close>.
\<close>

definition set_slot_fields :: "TimetableSlot \<Rightarrow> TimetableSlotUpdate \<Rightarrow> TimetableSlot" where
  "set_slot_fields slot slot_in =
     slot\<lparr>day := setattr_required (upd_day slot_in) (day slot),
          start_time := setattr_required (upd_start_time slot_in) (start_time slot),
          end_time := setattr_required (upd_end_time slot_in) (end_time slot),
          room_number := setattr_nullable (upd_room_number slot_in) (room_number slot),
          subject_id := setattr_required (upd_subject_id slot_in) (subject_id slot),
          teacher_id := setattr_nullable (upd_teacher_id slot_in) (teacher_id slot)\<rparr>"

definition update_timetable_slot ::
  "timetable_db \<Rightarrow> int \<Rightarrow> TimetableSlotUpdate \<Rightarrow> (error + TimetableSlot) \<times> timetable_db" where
  "update_timetable_slot db slot_id' slot_in =
     (case find (\<lambda>r. slot_id r = slot_id') (slots db) of
        None \<Rightarrow> (Inl (HTTPException 404 ''Timetable slot not found''), db)
      | Some slot \<Rightarrow>
          if conflict_check_runs slot_in \<and>
             update_conflicts (slots db) slot_id' (timetable_id slot)
               (update_candidate slot slot_in) \<noteq> [] then
            (Inl (HTTPException 400 ''Time slot conflicts with existing slots''), db)
          else if sets_null (upd_day slot_in) \<or> sets_null (upd_start_time slot_in) \<or>
                  sets_null (upd_end_time slot_in) \<or> sets_null (upd_subject_id slot_in) then
            (Inl IntegrityError, db)
          else
            (let slot' = set_slot_fields slot slot_in
             in (Inr slot',
                 db\<lparr>slots := map (\<lambda>r. if slot_id r = slot_id' then slot' else r) (slots db)\<rparr>)))"

text \<open>
  The invariant of the specification: within one timetable, no two slots of the same day
  have overlapping intervals.
\<close>

definition no_overlap :: "TimetableSlot list \<Rightarrow> bool" where
  "no_overlap rows =
     (\<forall>x \<in> set rows. \<forall>y \<in> set rows.
        slot_id x \<noteq> slot_id y \<and> timetable_id x = timetable_id y \<and> day x = day y \<longrightarrow>
        \<not> (start_time x < end_time y \<and> end_time x > start_time y))"

section \<open>Example tables\<close>

text \<open>One fee record of 5500 with nothing paid, and no payment.\<close>

abbreviation ex_fee_db :: fee_db where
  "ex_fee_db \<equiv>
     \<lparr>fee_records =
        [1 \<mapsto> \<lparr>total_amount = 5500, paid_amount = Some 0, balance = 5500, status = PENDING\<rparr>],
      payments = Map.empty, next_fee_record_id = 2, next_payment_id = 1\<rparr>"

text \<open>
  A fee record of 5500 created with nothing paid and a balance of 0, as a request to
  \<^verbatim>\<open>create_fee_record\<close> can send it, and no payment.
\<close>

abbreviation ex_fresh_db :: fee_db where
  "ex_fresh_db \<equiv>
     \<lparr>fee_records =
        [1 \<mapsto> \<lparr>total_amount = 5500, paid_amount = Some 0, balance = 0, status = PENDING\<rparr>],
      payments = Map.empty, next_fee_record_id = 2, next_payment_id = 1\<rparr>"


text \<open>A fee record of \<^verbatim>\<open>0.8\<close> of which \<^verbatim>\<open>0.1\<close> is paid.\<close>

abbreviation ex_cents_db :: fee_db where
  "ex_cents_db \<equiv>
     \<lparr>fee_records =
        [1 \<mapsto> \<lparr>total_amount = fl (4 / 5), paid_amount = Some (fl (1 / 10)),
                balance = fsub (fl (4 / 5)) (fl (1 / 10)), status = PARTIALLY_PAID\<rparr>],
      payments = Map.empty, next_fee_record_id = 2, next_payment_id = 1\<rparr>"

text \<open>
  Timetable 1 on Monday: \<open>slot_8_9\<close> from 08:00 to 09:00, \<open>slot_9_10\<close> from 09:00 to
  10:00, and \<open>slot_8_930\<close> from 08:00 to 09:30, which overlaps the second.
\<close>

abbreviation slot_8_9 :: TimetableSlot where
  "slot_8_9 \<equiv>
     \<lparr>day = MONDAY, start_time = 480, end_time = 540, room_number = None,
      timetable_id = 1, subject_id = 1, teacher_id = None, slot_id = 1\<rparr>"

abbreviation slot_9_10 :: TimetableSlot where
  "slot_9_10 \<equiv>
     \<lparr>day = MONDAY, start_time = 540, end_time = 600, room_number = None,
      timetable_id = 1, subject_id = 2, teacher_id = None, slot_id = 2\<rparr>"

abbreviation slot_8_930 :: TimetableSlot where
  "slot_8_930 \<equiv>
     \<lparr>day = MONDAY, start_time = 480, end_time = 570, room_number = None,
      timetable_id = 1, subject_id = 1, teacher_id = None, slot_id = 1\<rparr>"

abbreviation ex_slot_db :: timetable_db where
  "ex_slot_db \<equiv> \<lparr>timetables = [1], slots = [slot_8_9, slot_9_10], next_slot_id = 3\<rparr>"

abbreviation ex_one_slot_db :: timetable_db where
  "ex_one_slot_db \<equiv> \<lparr>timetables = [1], slots = [slot_8_9], next_slot_id = 2\<rparr>"

abbreviation ex_overlap_db :: timetable_db where
  "ex_overlap_db \<equiv> \<lparr>timetables = [1], slots = [slot_8_930, slot_9_10], next_slot_id = 3\<rparr>"

text \<open>Timetable 1 on Monday again: one slot from 00:30 to 01:00, one from 02:00 to 03:00.\<close>

abbreviation slot_0030_1 :: TimetableSlot where
  "slot_0030_1 \<equiv>
     \<lparr>day = MONDAY, start_time = 30, end_time = 60, room_number = None,
      timetable_id = 1, subject_id = 1, teacher_id = None, slot_id = 1\<rparr>"

abbreviation slot_2_3 :: TimetableSlot where
  "slot_2_3 \<equiv>
     \<lparr>day = MONDAY, start_time = 120, end_time = 180, room_number = None,
      timetable_id = 1, subject_id = 2, teacher_id = None, slot_id = 2\<rparr>"

abbreviation ex_night_db :: timetable_db where
  "ex_night_db \<equiv> \<lparr>timetables = [1], slots = [slot_0030_1, slot_2_3], next_slot_id = 3\<rparr>"

text \<open>A request that sends nothing; the examples change single fields of it.\<close>

abbreviation no_change :: TimetableSlotUpdate where
  "no_change \<equiv>
     \<lparr>upd_day = Unset, upd_start_time = Unset, upd_end_time = Unset,
      upd_room_number = Unset, upd_subject_id = Unset, upd_teacher_id = Unset\<rparr>"

section \<open>Rounding\<close>

lemma ilog2_lower:
  assumes "0 < q"
  shows "2 powi (ilog2 q) \<le> q"
proof (cases "1 \<le> q")
  case True
  then have n: "0 < \<lfloor>q\<rfloor>" by simp
  from bitlen_bounds [OF n] have b: "2 ^ nat (bitlen \<lfloor>q\<rfloor> - 1) \<le> \<lfloor>q\<rfloor>" ..
  from n have "1 \<le> bitlen \<lfloor>q\<rfloor>"
    using bitlen_eq_zero_iff [of "\<lfloor>q\<rfloor>"] bitlen_nonneg [of "\<lfloor>q\<rfloor>"] by linarith
  then have "(2::rat) powi (bitlen \<lfloor>q\<rfloor> - 1) = 2 ^ nat (bitlen \<lfloor>q\<rfloor> - 1)"
    by (simp add: power_int_nonneg_exp)
  also have "\<dots> = of_int (2 ^ nat (bitlen \<lfloor>q\<rfloor> - 1))" by simp
  also have "\<dots> \<le> of_int \<lfloor>q\<rfloor>" using b by (simp only: of_int_le_iff)
  also have "\<dots> \<le> q" by simp
  finally show ?thesis using True by (simp add: ilog2_def)
next
  case False
  let ?m = "\<lceil>1 / q\<rceil> - 1"
  from False assms have "1 < 1 / q" by simp
  then have m: "0 < ?m" by linarith
  from bitlen_bounds [OF m] have "?m < 2 ^ nat (bitlen ?m)" ..
  then have "\<lceil>1 / q\<rceil> \<le> 2 ^ nat (bitlen ?m)" by linarith
  then have c: "of_int \<lceil>1 / q\<rceil> \<le> (of_int (2 ^ nat (bitlen ?m)) :: rat)"
    by (simp only: of_int_le_iff)
  have "1 / q \<le> of_int \<lceil>1 / q\<rceil>" by (rule le_of_int_ceiling)
  also note c
  also have "(of_int (2 ^ nat (bitlen ?m)) :: rat) = 2 ^ nat (bitlen ?m)" by simp
  finally have "1 / q \<le> 2 ^ nat (bitlen ?m)" .
  with assms have "1 / 2 ^ nat (bitlen ?m) \<le> q"
    by (simp add: field_simps)
  moreover have "(2::rat) powi (- bitlen ?m) = 1 / 2 ^ nat (bitlen ?m)"
    using bitlen_nonneg [of ?m] by (simp add: power_int_minus_divide power_int_nonneg_exp)
  ultimately show ?thesis using False by (simp add: ilog2_def)
qed

lemma ilog2_upper:
  assumes "0 < q"
  shows "q < 2 powi (ilog2 q + 1)"
proof (cases "1 \<le> q")
  case True
  then have n: "0 < \<lfloor>q\<rfloor>" by simp
  from bitlen_bounds [OF n] have "\<lfloor>q\<rfloor> < 2 ^ nat (bitlen \<lfloor>q\<rfloor>)" ..
  then have "\<lfloor>q\<rfloor> + 1 \<le> 2 ^ nat (bitlen \<lfloor>q\<rfloor>)" by linarith
  then have c: "of_int (\<lfloor>q\<rfloor> + 1) \<le> (of_int (2 ^ nat (bitlen \<lfloor>q\<rfloor>)) :: rat)"
    by (simp only: of_int_le_iff)
  have "q < of_int (\<lfloor>q\<rfloor> + 1)" by linarith
  also note c
  also have "(of_int (2 ^ nat (bitlen \<lfloor>q\<rfloor>)) :: rat) = 2 ^ nat (bitlen \<lfloor>q\<rfloor>)" by simp
  also have "\<dots> = 2 powi (bitlen \<lfloor>q\<rfloor>)"
    using bitlen_nonneg [of "\<lfloor>q\<rfloor>"] by (simp add: power_int_nonneg_exp)
  finally show ?thesis using True by (simp add: ilog2_def)
next
  case False
  let ?m = "\<lceil>1 / q\<rceil> - 1"
  from False assms have "1 < 1 / q" by simp
  then have m: "0 < ?m" by linarith
  from bitlen_bounds [OF m] have "2 ^ nat (bitlen ?m - 1) \<le> ?m" ..
  then have c: "(of_int (2 ^ nat (bitlen ?m - 1)) :: rat) \<le> of_int ?m"
    by (simp only: of_int_le_iff)
  have "(2::rat) ^ nat (bitlen ?m - 1) = of_int (2 ^ nat (bitlen ?m - 1))" by simp
  also note c
  also have "of_int ?m < 1 / q" by linarith
  finally have "(2::rat) ^ nat (bitlen ?m - 1) < 1 / q" .
  with assms have "q < 1 / 2 ^ nat (bitlen ?m - 1)"
    by (simp add: field_simps)
  moreover from m have "1 \<le> bitlen ?m"
    using bitlen_eq_zero_iff [of ?m] bitlen_nonneg [of ?m] by linarith
  then have "(2::rat) powi (- bitlen ?m + 1) = 1 / 2 ^ nat (bitlen ?m - 1)"
    using power_int_minus_divide [of "2::rat" "bitlen ?m - 1"]
    by (simp add: power_int_nonneg_exp)
  ultimately show ?thesis using False by (simp add: ilog2_def)
qed

text \<open>The number that \<open>fl\<close> rounds to an integer has 53 bits before the point.\<close>

lemma significand_range:
  assumes "0 < q"
  shows "2 ^ 52 \<le> q / 2 powi (ilog2 q - 52) \<and> q / 2 powi (ilog2 q - 52) < 2 ^ 53"
proof -
  have p: "(0::rat) < 2 powi (ilog2 q - 52)" by simp
  have e: "(2::rat) powi (ilog2 q - 52) = 2 powi (ilog2 q) / 2 ^ 52"
    by (simp add: power_int_diff)
  have u: "(2::rat) powi (ilog2 q + 1) = 2 powi (ilog2 q) * 2"
    by (simp add: power_int_add)
  from ilog2_lower [OF assms] have "2 ^ 52 * 2 powi (ilog2 q - 52) \<le> q"
    by (simp add: e)
  then have lo: "2 ^ 52 \<le> q / 2 powi (ilog2 q - 52)"
    using p by (simp add: pos_le_divide_eq)
  from ilog2_upper [OF assms] have "q < 2 ^ 53 * 2 powi (ilog2 q - 52)"
    by (simp add: e u)
  then have hi: "q / 2 powi (ilog2 q - 52) < 2 ^ 53"
    using p by (simp add: pos_divide_less_eq)
  from lo hi show ?thesis ..
qed

lemma round_half_even_ge: "\<lfloor>x\<rfloor> \<le> round_half_even x"
  by (simp add: round_half_even_def Let_def)

text \<open>Rounding a positive number gives a positive float: there is no underflow to 0.\<close>

lemma fl_pos:
  assumes "0 < q"
  shows "0 < fl q"
proof -
  let ?e = "ilog2 q - 52"
  have p: "(0::rat) < 2 powi ?e" by simp
  have "(2::rat) powi ?e = 2 powi (ilog2 q) / 2 ^ 52"
    by (simp add: power_int_diff)
  also have "\<dots> \<le> q / 2 ^ 52" using ilog2_lower [OF assms] by (simp add: divide_right_mono)
  also have "\<dots> \<le> q" using assms by (simp add: field_simps)
  finally have "1 \<le> q / 2 powi ?e" using p by (simp add: field_simps)
  then have "1 \<le> \<lfloor>q / 2 powi ?e\<rfloor>" by simp
  with round_half_even_ge [of "q / 2 powi ?e"] have "0 < round_half_even (q / 2 powi ?e)"
    by linarith
  then have "(0::rat) < of_int (round_half_even (q / 2 powi ?e)) * 2 powi ?e"
    using p by simp
  then show ?thesis using assms by (simp add: fl_def Let_def)
qed

lemma fadd_pos: "0 \<le> p \<Longrightarrow> 0 < a \<Longrightarrow> 0 < fadd p a"
  by (simp add: fadd_def fl_pos)

text \<open>The sums and differences of the examples.\<close>

lemma float_examples:
  "fadd 0 5500 = 5500" "fsub 5500 5500 = 0" "fadd 0 3000 = 3000" "fsub 5500 3000 = 2500"
  "fsub 3000 3000 = 0" "fadd 0 2000 = 2000" "fsub 5500 2000 = 3500"
  "fadd 0 100 = 100" "fsub 100 100 = 0" "fadd 100 50 = 150" "fsub 100 150 = - 50"
  "fsub 150 50 = 100" "fadd 0 10 = 10" "fsub 100 10 = 90" "fsub 10 10 = 0"
  "fsub 100 0 = 100" "fsub 5500 0 = 5500" "fsub 5500 1000 = 4500"
  by code_simp+


lemma float_cents:
  "fadd (fl (1 / 10)) (fl (7 / 10)) = 7205759403792793 / 9007199254740992"
  "fsub (fl (4 / 5)) (7205759403792793 / 9007199254740992) = 1 / 9007199254740992"
  "fadd (fl (1 / 10)) (fl (1 / 5)) = 1351079888211149 / 4503599627370496"
  "fsub (1351079888211149 / 4503599627370496) (fl (1 / 5)) =
     1801439850948199 / 18014398509481984"
  by code_simp+

section \<open>Reconciliation of a fee record\<close>




lemma create_payment_consistent:
  "fee_records db (fee_record_id payment_in) = Some r \<Longrightarrow> paid_amount r = Some p \<Longrightarrow>
   balance_consistent (snd (create_payment db payment_in)) (fee_record_id payment_in)"
  by (simp add: balance_consistent_def create_payment_def create_payment_fee_record_def Let_def)

lemma delete_payment_consistent:
  "payments db payment_id = Some payment \<Longrightarrow>
   fee_records db (fee_record_id payment) = Some r \<Longrightarrow> paid_amount r = Some p \<Longrightarrow>
   balance_consistent (snd (delete_payment db payment_id)) (fee_record_id payment)"
  by (simp add: balance_consistent_def delete_payment_def delete_payment_fee_record_def Let_def)

lemma update_payment_consistent:
  "payments db payment_id = Some payment \<Longrightarrow>
   fee_records db (fee_record_id payment) = Some r \<Longrightarrow> paid_amount r = Some p \<Longrightarrow>
   new_amount \<noteq> amount payment \<Longrightarrow>
   balance_consistent
     (snd (update_payment db payment_id \<lparr>upd_amount = Given (Some new_amount)\<rparr>))
     (fee_record_id payment)"
  by (simp add: balance_consistent_def update_payment_def update_payment_fee_record_def Let_def)

text \<open>No payment handler breaks the equation on any fee record.\<close>

lemma apply_event_consistent:
  "balance_consistent db k \<Longrightarrow> balance_consistent (apply_event db e) k"
  by (cases e)
     (auto simp: balance_consistent_def create_payment_def update_payment_def delete_payment_def
        create_payment_fee_record_def update_payment_fee_record_def delete_payment_fee_record_def
        Let_def split: option.splits field.splits if_splits sum.splits)

lemma apply_events_consistent:
  "balance_consistent db k \<Longrightarrow> balance_consistent (apply_events db es) k"
  unfolding apply_events_def
  by (induction es arbitrary: db) (auto intro: apply_event_consistent)

text \<open>
  The first event applied to a fee record that has no payment yet can only be a new
  payment, and that sets the balance.
\<close>

lemma first_event_consistent:
  assumes "fee_records db k = Some r" and "paid_amount r = Some p"
    and "\<forall>payment_id payment. payments db payment_id = Some payment \<longrightarrow>
           fee_record_id payment \<noteq> k"
    and "event_on db k e"
  shows "balance_consistent (apply_event db e) k"
proof (cases e)
  case (NewPayment payment_in)
  with assms(4) have "fee_record_id payment_in = k" by simp
  with assms(1,2) NewPayment show ?thesis
    using create_payment_consistent [of db payment_in r p] by simp
next
  case (AmendedPayment payment_id payment_in)
  with assms(3,4) show ?thesis by (auto split: option.splits)
next
  case (RemovedPayment payment_id)
  with assms(3,4) show ?thesis by (auto split: option.splits)
qed

text \<open>
  C1. Deleting a payment should subtract its amount from \<^verbatim>\<open>paid_amount\<close>, recompute the
  balance, and give the status PAID whenever the new balance is at most 0 and the new
  \<^verbatim>\<open>paid_amount\<close> is positive. The handler has no branch for PAID: on a record of 100
  paid with 100 and then 50, deleting the payment of 50 leaves 100 paid and balance 0,
  and the status PARTIALLY_PAID.
\<close>

theorem delete_payment_never_paid:
  "fee_records (apply_events
       \<lparr>fee_records =
          [1 \<mapsto> \<lparr>total_amount = 100, paid_amount = Some 0, balance = 100, status = PENDING\<rparr>],
        payments = Map.empty, next_fee_record_id = 2, next_payment_id = 1\<rparr>
       [NewPayment \<lparr>amount = 100, fee_record_id = 1\<rparr>,
        NewPayment \<lparr>amount = 50, fee_record_id = 1\<rparr>,
        RemovedPayment 2]) 1
   = Some \<lparr>total_amount = 100, paid_amount = Some 100, balance = 0, status = PARTIALLY_PAID\<rparr>"
  by (simp add: apply_events_def create_payment_def create_payment_fee_record_def
      delete_payment_def delete_payment_fee_record_def Let_def float_examples)

text \<open>
  C2. For a fee record that starts at \<^verbatim>\<open>paid_amount = 0\<close> with no payment of its own,
  whatever its balance, and every finite sequence of new, amended and removed payments
  applied to it through the three payment handlers, the record has
  \<^verbatim>\<open>balance == total_amount - paid_amount\<close> after each event of the sequence.
\<close>

theorem payment_events_keep_balance:
  assumes "fee_records db k = Some r" and "paid_amount r = Some 0"
    and "\<forall>payment_id payment. payments db payment_id = Some payment \<longrightarrow>
           fee_record_id payment \<noteq> k"
    and "events_on db k events"
  shows "\<forall>n. 0 < n \<and> n \<le> length events \<longrightarrow>
           balance_consistent (apply_events db (take n events)) k"
proof (intro allI impI)
  fix n
  assume n: "0 < n \<and> n \<le> length events"
  then obtain e es where events: "events = e # es" by (cases events) auto
  from n obtain m where m: "n = Suc m" by (cases n) auto
  from assms(4) events have "event_on db k e" by simp
  with assms(1-3) have "balance_consistent (apply_event db e) k"
    by (rule first_event_consistent)
  then have "balance_consistent (apply_events (apply_event db e) (take m es)) k"
    by (rule apply_events_consistent)
  with events m show "balance_consistent (apply_events db (take n events)) k"
    by (simp add: apply_events_def)
qed

text \<open>
  On the record created with a balance of 0: after a payment of 3000, and after its
  amendment to 2000, the balance is 2500 and then 3500.
\<close>

theorem payment_events_keep_balance_witness:
  "events_on ex_fresh_db 1
      [NewPayment \<lparr>amount = 3000, fee_record_id = 1\<rparr>,
       AmendedPayment 1 \<lparr>upd_amount = Given (Some 2000)\<rparr>,
       RemovedPayment 1] \<and>
   balance_consistent (apply_events ex_fresh_db
      (take 2 [NewPayment \<lparr>amount = 3000, fee_record_id = 1\<rparr>,
               AmendedPayment 1 \<lparr>upd_amount = Given (Some 2000)\<rparr>,
               RemovedPayment 1])) 1 \<and>
   map_option balance (fee_records (apply_events ex_fresh_db
      (take 2 [NewPayment \<lparr>amount = 3000, fee_record_id = 1\<rparr>,
               AmendedPayment 1 \<lparr>upd_amount = Given (Some 2000)\<rparr>,
               RemovedPayment 1])) 1) = Some 3500"
proof -
  let ?es = "[NewPayment \<lparr>amount = 3000, fee_record_id = 1\<rparr>,
       AmendedPayment 1 \<lparr>upd_amount = Given (Some 2000)\<rparr>,
       RemovedPayment 1]"
  have r: "fee_records ex_fresh_db 1 =
      Some \<lparr>total_amount = 5500, paid_amount = Some 0, balance = 0, status = PENDING\<rparr>"
    by simp
  have p: "paid_amount \<lparr>total_amount = 5500, paid_amount = Some 0, balance = 0,
      status = PENDING\<rparr> = Some 0"
    by simp
  have none: "\<forall>payment_id payment. payments ex_fresh_db payment_id = Some payment \<longrightarrow>
      fee_record_id payment \<noteq> 1"
    by simp
  have on: "events_on ex_fresh_db 1 ?es"
    by (simp add: create_payment_def create_payment_fee_record_def update_payment_def
        update_payment_fee_record_def Let_def float_examples)
  have "0 < (2::nat) \<and> 2 \<le> length ?es \<longrightarrow>
      balance_consistent (apply_events ex_fresh_db (take 2 ?es)) 1"
    using payment_events_keep_balance [OF r p none on] by (rule spec)
  then have c: "balance_consistent (apply_events ex_fresh_db (take 2 ?es)) 1"
    by simp
  have b: "map_option balance (fee_records (apply_events ex_fresh_db (take 2 ?es)) 1) =
      Some 3500"
    by (simp add: apply_events_def create_payment_def create_payment_fee_record_def
        update_payment_def update_payment_fee_record_def Let_def float_examples)
  from on c b show ?thesis by blast
qed

text \<open>
  C3, as stated: every operation that changes \<^verbatim>\<open>paid_amount\<close>, the fee record endpoints
  included, leaves \<^verbatim>\<open>balance == total_amount - paid_amount\<close>. It fails for
  \<^verbatim>\<open>create_fee_record\<close>, which stores a request of total 100, paid 0 and balance 50 as it
  is.
\<close>

theorem create_fee_record_counterexample:
  "fee_records (snd (create_fee_record
       \<lparr>fee_records = Map.empty, payments = Map.empty,
        next_fee_record_id = 1, next_payment_id = 1\<rparr>
       \<lparr>new_total_amount = 100, new_paid_amount = 0, new_balance = 50,
        new_status = PENDING\<rparr>)) 1
     = Some \<lparr>total_amount = 100, paid_amount = Some 0, balance = 50, status = PENDING\<rparr> \<and>
   \<not> balance_consistent (snd (create_fee_record
       \<lparr>fee_records = Map.empty, payments = Map.empty,
        next_fee_record_id = 1, next_payment_id = 1\<rparr>
       \<lparr>new_total_amount = 100, new_paid_amount = 0, new_balance = 50,
        new_status = PENDING\<rparr>)) 1"
  by (simp add: create_fee_record_def balance_consistent_def Let_def float_examples)

text \<open>
  C3, amended: the payment handlers leave \<^verbatim>\<open>balance == total_amount - paid_amount\<close> on
  the fee record they reconcile: \<^verbatim>\<open>create_payment\<close>, \<^verbatim>\<open>delete_payment\<close>, and
  \<^verbatim>\<open>update_payment\<close> when it changes the amount. \<^verbatim>\<open>create_fee_record\<close> and
  \<^verbatim>\<open>update_fee_record\<close> do not: the first stores \<^verbatim>\<open>total_amount\<close>, \<^verbatim>\<open>paid_amount\<close>,
  \<^verbatim>\<open>balance\<close> and \<^verbatim>\<open>status\<close> as the request sends them, so that the equation holds
  afterwards exactly when the values sent satisfy it; the second stores each field the
  request sends and keeps the others, when the record exists and no required column is
  sent as \<^verbatim>\<open>null\<close>.
\<close>

theorem fee_record_endpoints_store_as_sent:
  "fee_records (snd (create_fee_record db fee_record_in)) (next_fee_record_id db) =
     Some \<lparr>total_amount = new_total_amount fee_record_in,
           paid_amount = Some (new_paid_amount fee_record_in),
           balance = new_balance fee_record_in,
           status = new_status fee_record_in\<rparr> \<and>
   (balance_consistent (snd (create_fee_record db fee_record_in)) (next_fee_record_id db) \<longleftrightarrow>
      new_balance fee_record_in =
        fsub (new_total_amount fee_record_in) (new_paid_amount fee_record_in)) \<and>
   (fee_records db k = Some r \<and> \<not> sets_null (upd_total_amount u) \<and>
    \<not> sets_null (upd_balance u) \<and> \<not> sets_null (upd_status u) \<longrightarrow>
      fee_records (snd (update_fee_record db k u)) k =
        Some (r\<lparr>total_amount := setattr_required (upd_total_amount u) (total_amount r),
                paid_amount := setattr_nullable (upd_paid_amount u) (paid_amount r),
                balance := setattr_required (upd_balance u) (balance r),
                status := setattr_required (upd_status u) (status r)\<rparr>)) \<and>
   (fee_records db (fee_record_id payment_in) = Some r \<and> paid_amount r = Some p \<longrightarrow>
      balance_consistent (snd (create_payment db payment_in)) (fee_record_id payment_in)) \<and>
   (payments db payment_id = Some payment \<and>
    fee_records db (fee_record_id payment) = Some r \<and> paid_amount r = Some p \<longrightarrow>
      balance_consistent (snd (delete_payment db payment_id)) (fee_record_id payment)) \<and>
   (payments db payment_id = Some payment \<and>
    fee_records db (fee_record_id payment) = Some r \<and> paid_amount r = Some p \<and>
    new_amount \<noteq> amount payment \<longrightarrow>
      balance_consistent
        (snd (update_payment db payment_id \<lparr>upd_amount = Given (Some new_amount)\<rparr>))
        (fee_record_id payment))"
proof (intro conjI impI)
  show "fee_records (snd (create_fee_record db fee_record_in)) (next_fee_record_id db) =
     Some \<lparr>total_amount = new_total_amount fee_record_in,
           paid_amount = Some (new_paid_amount fee_record_in),
           balance = new_balance fee_record_in,
           status = new_status fee_record_in\<rparr>"
    by (simp add: create_fee_record_def Let_def)
next
  show "balance_consistent (snd (create_fee_record db fee_record_in)) (next_fee_record_id db) \<longleftrightarrow>
      new_balance fee_record_in =
        fsub (new_total_amount fee_record_in) (new_paid_amount fee_record_in)"
    by (simp add: create_fee_record_def balance_consistent_def Let_def)
next
  assume "fee_records db k = Some r \<and> \<not> sets_null (upd_total_amount u) \<and>
    \<not> sets_null (upd_balance u) \<and> \<not> sets_null (upd_status u)"
  then show "fee_records (snd (update_fee_record db k u)) k =
        Some (r\<lparr>total_amount := setattr_required (upd_total_amount u) (total_amount r),
                paid_amount := setattr_nullable (upd_paid_amount u) (paid_amount r),
                balance := setattr_required (upd_balance u) (balance r),
                status := setattr_required (upd_status u) (status r)\<rparr>)"
    by (simp add: update_fee_record_def Let_def)
next
  assume "fee_records db (fee_record_id payment_in) = Some r \<and> paid_amount r = Some p"
  then show "balance_consistent (snd (create_payment db payment_in)) (fee_record_id payment_in)"
    by (simp add: create_payment_consistent)
next
  assume "payments db payment_id = Some payment \<and>
    fee_records db (fee_record_id payment) = Some r \<and> paid_amount r = Some p"
  then show "balance_consistent (snd (delete_payment db payment_id)) (fee_record_id payment)"
    by (simp add: delete_payment_consistent)
next
  assume "payments db payment_id = Some payment \<and>
    fee_records db (fee_record_id payment) = Some r \<and> paid_amount r = Some p \<and>
    new_amount \<noteq> amount payment"
  then show "balance_consistent
        (snd (update_payment db payment_id \<lparr>upd_amount = Given (Some new_amount)\<rparr>))
        (fee_record_id payment)"
    by (simp add: update_payment_consistent)
qed

text \<open>
  Sending only \<^verbatim>\<open>paid_amount = 1000\<close> for the record of 5500 stores 1000 beside the old
  balance of 5500; a payment of 3000 on the record created with balance 0 sets the
  balance.
\<close>

theorem fee_record_endpoints_store_as_sent_witness:
  "fee_records (snd (update_fee_record ex_fee_db 1
       \<lparr>upd_total_amount = Unset, upd_paid_amount = Given (Some 1000), upd_balance = Unset,
        upd_status = Unset\<rparr>)) 1 =
     Some \<lparr>total_amount = 5500, paid_amount = Some 1000, balance = 5500, status = PENDING\<rparr> \<and>
   \<not> balance_consistent (snd (update_fee_record ex_fee_db 1
       \<lparr>upd_total_amount = Unset, upd_paid_amount = Given (Some 1000), upd_balance = Unset,
        upd_status = Unset\<rparr>)) 1 \<and>
   balance_consistent (snd (create_payment ex_fresh_db \<lparr>amount = 3000, fee_record_id = 1\<rparr>)) 1"
proof -
  let ?u = "\<lparr>upd_total_amount = Unset, upd_paid_amount = Given (Some 1000),
       upd_balance = Unset, upd_status = Unset\<rparr>"
  let ?r = "\<lparr>total_amount = 5500, paid_amount = Some 0, balance = 5500, status = PENDING\<rparr>"
  let ?f = "\<lparr>total_amount = 5500, paid_amount = Some 0, balance = 0, status = PENDING\<rparr>"
  let ?p = "\<lparr>amount = 3000, fee_record_id = 1\<rparr>"
  note inst = fee_record_endpoints_store_as_sent
  have u: "fee_records ex_fee_db 1 = Some ?r \<and> \<not> sets_null (upd_total_amount ?u) \<and>
      \<not> sets_null (upd_balance ?u) \<and> \<not> sets_null (upd_status ?u)"
    by simp
  from inst [of _ _ 1 ?r ?u, THEN conjunct2, THEN conjunct2, THEN conjunct1] u
  have "fee_records (snd (update_fee_record ex_fee_db 1 ?u)) 1 =
      Some (?r\<lparr>total_amount := setattr_required (upd_total_amount ?u) (total_amount ?r),
              paid_amount := setattr_nullable (upd_paid_amount ?u) (paid_amount ?r),
              balance := setattr_required (upd_balance ?u) (balance ?r),
              status := setattr_required (upd_status ?u) (status ?r)\<rparr>)"
    by blast
  then have a: "fee_records (snd (update_fee_record ex_fee_db 1 ?u)) 1 =
      Some \<lparr>total_amount = 5500, paid_amount = Some 1000, balance = 5500, status = PENDING\<rparr>"
    by simp
  then have b: "\<not> balance_consistent (snd (update_fee_record ex_fee_db 1 ?u)) 1"
    by (simp add: balance_consistent_def float_examples)
  have c: "fee_records ex_fresh_db (fee_record_id ?p) = Some ?f \<and> paid_amount ?f = Some 0"
    by simp
  from inst [of _ _ _ ?f _ ?p 0, THEN conjunct2, THEN conjunct2, THEN conjunct2,
      THEN conjunct1] c
  have "balance_consistent (snd (create_payment ex_fresh_db ?p)) (fee_record_id ?p)"
    by blast
  then have d: "balance_consistent (snd (create_payment ex_fresh_db ?p)) 1" by simp
  from a b d show ?thesis by blast
qed

text \<open>
  C5. For a stored fee record with \<^verbatim>\<open>total_amount >= 0\<close> and \<^verbatim>\<open>paid_amount >= 0\<close> and a
  payment of a positive amount, \<^verbatim>\<open>create_payment\<close> succeeds and leaves the record with
  \<^verbatim>\<open>paid_amount\<close> set to its old value plus the amount, the balance
  \<^verbatim>\<open>total_amount - paid_amount\<close>, and the status of the ordered table: PAID if the
  balance is at most 0, else PARTIALLY_PAID if \<^verbatim>\<open>paid_amount\<close> is positive, else PENDING.
  The sum and the difference are those of floats.
\<close>

theorem create_payment_reconciles:
  assumes "fee_records db (fee_record_id payment_in) = Some r" and "paid_amount r = Some p"
    and "0 \<le> total_amount r" and "0 \<le> p" and "0 < amount payment_in"
  shows "fst (create_payment db payment_in) = Inr (next_payment_id db, payment_in) \<and>
     fee_records (snd (create_payment db payment_in)) (fee_record_id payment_in) =
       Some (r\<lparr>paid_amount := Some (fadd p (amount payment_in)),
               balance := fsub (total_amount r) (fadd p (amount payment_in)),
               status :=
                 (if fsub (total_amount r) (fadd p (amount payment_in)) \<le> 0 then PAID
                  else if fadd p (amount payment_in) > 0 then PARTIALLY_PAID
                  else PENDING)\<rparr>)"
proof -
  from assms(4,5) have "0 < fadd p (amount payment_in)" by (rule fadd_pos)
  with assms(1,2) show ?thesis
    by (simp add: create_payment_def create_payment_fee_record_def Let_def)
qed

text \<open>
  The two examples of the specification: from a total of 5500 with nothing paid, a
  payment of 5500 gives PAID with balance 0, and one of 3000 gives PARTIALLY_PAID with
  balance 2500. And one with rounding: on a total of \<^verbatim>\<open>0.8\<close> with \<^verbatim>\<open>0.1\<close> paid, a
  payment of \<^verbatim>\<open>0.7\<close> gives \<^verbatim>\<open>paid_amount = 0.7999999999999999\<close>, a balance of
  \<open>1 / 2 ^ 53\<close> and PARTIALLY_PAID.
\<close>

theorem create_payment_reconciles_witness:
  "fee_records (snd (create_payment ex_fee_db \<lparr>amount = 5500, fee_record_id = 1\<rparr>)) 1 =
     Some \<lparr>total_amount = 5500, paid_amount = Some 5500, balance = 0, status = PAID\<rparr> \<and>
   fee_records (snd (create_payment ex_fee_db \<lparr>amount = 3000, fee_record_id = 1\<rparr>)) 1 =
     Some \<lparr>total_amount = 5500, paid_amount = Some 3000, balance = 2500,
           status = PARTIALLY_PAID\<rparr> \<and>
   fee_records (snd (create_payment ex_cents_db \<lparr>amount = fl (7 / 10), fee_record_id = 1\<rparr>)) 1 =
     Some \<lparr>total_amount = fl (4 / 5),
           paid_amount = Some (7205759403792793 / 9007199254740992),
           balance = 1 / 9007199254740992, status = PARTIALLY_PAID\<rparr>"
proof -
  let ?r = "\<lparr>total_amount = 5500, paid_amount = Some 0, balance = 5500, status = PENDING\<rparr>"
  have h: "fee_records ex_fee_db (fee_record_id \<lparr>amount = a, fee_record_id = 1\<rparr>) = Some ?r"
    for a :: float
    by simp
  have p: "paid_amount ?r = Some 0" by simp
  have a: "fee_records (snd (create_payment ex_fee_db \<lparr>amount = 5500, fee_record_id = 1\<rparr>)) 1 =
     Some \<lparr>total_amount = 5500, paid_amount = Some 5500, balance = 0, status = PAID\<rparr>"
    using create_payment_reconciles [OF h [of 5500] p] by (simp add: float_examples)
  have b: "fee_records (snd (create_payment ex_fee_db \<lparr>amount = 3000, fee_record_id = 1\<rparr>)) 1 =
     Some \<lparr>total_amount = 5500, paid_amount = Some 3000, balance = 2500,
           status = PARTIALLY_PAID\<rparr>"
    using create_payment_reconciles [OF h [of 3000] p] by (simp add: float_examples)
  let ?c = "\<lparr>total_amount = fl (4 / 5), paid_amount = Some (fl (1 / 10)),
      balance = fsub (fl (4 / 5)) (fl (1 / 10)), status = PARTIALLY_PAID\<rparr>"
  let ?q = "\<lparr>amount = fl (7 / 10), fee_record_id = 1\<rparr>"
  have hc: "fee_records ex_cents_db (fee_record_id ?q) = Some ?c" by simp
  have pc: "paid_amount ?c = Some (fl (1 / 10))" by simp
  have pos: "0 \<le> total_amount ?c" "0 \<le> fl (1 / 10)" "0 < amount ?q"
    by (simp_all add: fl_pos less_imp_le)
  have c: "fee_records (snd (create_payment ex_cents_db ?q)) 1 =
     Some \<lparr>total_amount = fl (4 / 5),
           paid_amount = Some (7205759403792793 / 9007199254740992),
           balance = 1 / 9007199254740992, status = PARTIALLY_PAID\<rparr>"
    using create_payment_reconciles [OF hc pc pos] by (simp add: float_cents)
  from a b c show ?thesis by blast
qed




section \<open>The conflict check of timetable slots\<close>

lemma candidate_is_assigned:
  assumes "\<not> sets_null (upd_day u)" "\<not> sets_null (upd_start_time u)"
    "\<not> sets_null (upd_end_time u)"
  shows "update_candidate slot u =
     (day (set_slot_fields slot u), start_time (set_slot_fields slot u),
      end_time (set_slot_fields slot u))"
proof -
  have d: "py_or truthy_day (attr (upd_day u)) (day slot) =
      setattr_required (upd_day u) (day slot)"
    using assms(1) by (cases "upd_day u" rule: sets_null.cases) (simp_all add: truthy_day_def)
  have s: "py_or truthy_time (attr (upd_start_time u)) (start_time slot) =
      setattr_required (upd_start_time u) (start_time slot)"
    using assms(2)
    by (cases "upd_start_time u" rule: sets_null.cases) (simp_all add: truthy_time_def)
  have e: "py_or truthy_time (attr (upd_end_time u)) (end_time slot) =
      setattr_required (upd_end_time u) (end_time slot)"
    using assms(3)
    by (cases "upd_end_time u" rule: sets_null.cases) (simp_all add: truthy_time_def)
  show ?thesis
    by (simp add: update_candidate_def set_slot_fields_def d s e)
qed

lemma check_runs_iff:
  "conflict_check_runs u \<longleftrightarrow>
     attr (upd_day u) \<noteq> None \<or> attr (upd_start_time u) \<noteq> None \<or> attr (upd_end_time u) \<noteq> None"
  by (cases "attr (upd_day u)"; cases "attr (upd_start_time u)"; cases "attr (upd_end_time u)")
     (simp_all add: conflict_check_runs_def truthy_day_def truthy_time_def)

lemma candidate_when_skipped:
  assumes "\<not> conflict_check_runs u"
  shows "update_candidate slot u = (day slot, start_time slot, end_time slot)"
  using assms by (simp add: check_runs_iff update_candidate_def)

lemma set_slot_fields_keys:
  "slot_id (set_slot_fields slot u) = slot_id slot"
  "timetable_id (set_slot_fields slot u) = timetable_id slot"
  by (simp_all add: set_slot_fields_def)

lemma not_in_conflicts:
  assumes "update_conflicts rows sid tid (d, s, e) = []" and "y \<in> set rows"
    and "slot_id y \<noteq> sid" and "timetable_id y = tid" and "day y = d"
  shows "\<not> (start_time y < e \<and> end_time y > s)"
proof
  assume "start_time y < e \<and> end_time y > s"
  with assms(2-5) have "y \<in> set (update_conflicts rows sid tid (d, s, e))"
    by (simp add: update_conflicts_def)
  with assms(1) show False by simp
qed

text \<open>
  Every other slot of the timetable on the day the accepted slot ends on is clear of it:
  by the query when the check ran, by the invariant when it was skipped.
\<close>

lemma accepted_slot_clear:
  assumes inv: "no_overlap rows" and slot: "slot \<in> set rows" "slot_id slot = sid"
    and nn: "\<not> sets_null (upd_day u)" "\<not> sets_null (upd_start_time u)"
      "\<not> sets_null (upd_end_time u)"
    and ok: "\<not> (conflict_check_runs u \<and>
               update_conflicts rows sid (timetable_id slot) (update_candidate slot u) \<noteq> [])"
    and y: "y \<in> set rows" "slot_id y \<noteq> sid" "timetable_id y = timetable_id slot"
       "day y = day (set_slot_fields slot u)"
  shows "\<not> (start_time y < end_time (set_slot_fields slot u) \<and>
            end_time y > start_time (set_slot_fields slot u))"
proof (cases "conflict_check_runs u")
  case True
  with ok have "update_conflicts rows sid (timetable_id slot) (update_candidate slot u) = []"
    by simp
  then have "update_conflicts rows sid (timetable_id slot)
      (day (set_slot_fields slot u), start_time (set_slot_fields slot u),
       end_time (set_slot_fields slot u)) = []"
    by (simp add: candidate_is_assigned [OF nn])
  from not_in_conflicts [OF this y] show ?thesis .
next
  case False
  from candidate_when_skipped [OF False, of slot] candidate_is_assigned [OF nn, of slot]
  have same: "day (set_slot_fields slot u) = day slot"
    "start_time (set_slot_fields slot u) = start_time slot"
    "end_time (set_slot_fields slot u) = end_time slot"
    by simp_all
  from inv y(1) slot(1) have
    "slot_id y \<noteq> slot_id slot \<and> timetable_id y = timetable_id slot \<and> day y = day slot \<longrightarrow>
       \<not> (start_time y < end_time slot \<and> end_time y > start_time slot)"
    unfolding no_overlap_def by blast
  with y slot(2) same show ?thesis by simp
qed

lemma no_overlap_replace:
  assumes inv: "no_overlap rows" and sid: "slot_id slot' = sid"
    and clear: "\<And>y. y \<in> set rows \<Longrightarrow> slot_id y \<noteq> sid \<Longrightarrow>
        timetable_id y = timetable_id slot' \<Longrightarrow> day y = day slot' \<Longrightarrow>
        \<not> (start_time y < end_time slot' \<and> end_time y > start_time slot')"
  shows "no_overlap (map (\<lambda>r. if slot_id r = sid then slot' else r) rows)"
  unfolding no_overlap_def
proof (intro ballI impI)
  fix x' y'
  let ?f = "\<lambda>r. if slot_id r = sid then slot' else r"
  assume x': "x' \<in> set (map ?f rows)" and y': "y' \<in> set (map ?f rows)"
    and h: "slot_id x' \<noteq> slot_id y' \<and> timetable_id x' = timetable_id y' \<and> day x' = day y'"
  from x' obtain x where x: "x \<in> set rows" "x' = ?f x" by auto
  from y' obtain y where y: "y \<in> set rows" "y' = ?f y" by auto
  show "\<not> (start_time x' < end_time y' \<and> end_time x' > start_time y')"
  proof (cases "slot_id x = sid")
    case xs: True
    show ?thesis
    proof (cases "slot_id y = sid")
      case True
      with xs x y h show ?thesis by simp
    next
      case False
      with xs x y h sid have "\<not> (start_time y < end_time slot' \<and> end_time y > start_time slot')"
        by (intro clear) auto
      with xs False x y show ?thesis by auto
    qed
  next
    case xs: False
    show ?thesis
    proof (cases "slot_id y = sid")
      case True
      with xs x y h sid have "\<not> (start_time x < end_time slot' \<and> end_time x > start_time slot')"
        by (intro clear) auto
      with xs True x y show ?thesis by auto
    next
      case False
      with xs x y h inv show ?thesis unfolding no_overlap_def by auto
    qed
  qed
qed

lemma update_keeps_no_overlap:
  assumes "no_overlap (slots db)"
  shows "no_overlap (slots (snd (update_timetable_slot db sid u)))"
proof (cases "find (\<lambda>r. slot_id r = sid) (slots db)")
  case None
  with assms show ?thesis by (simp add: update_timetable_slot_def)
next
  case (Some slot)
  then have slot: "slot \<in> set (slots db)" "slot_id slot = sid"
    by (auto simp: find_Some_iff)
  let ?rej = "conflict_check_runs u \<and>
     update_conflicts (slots db) sid (timetable_id slot) (update_candidate slot u) \<noteq> []"
  let ?null = "sets_null (upd_day u) \<or> sets_null (upd_start_time u) \<or>
     sets_null (upd_end_time u) \<or> sets_null (upd_subject_id u)"
  show ?thesis
  proof (cases "?rej \<or> ?null")
    case True
    with Some assms show ?thesis by (auto simp: update_timetable_slot_def)
  next
    case False
    then have nn: "\<not> sets_null (upd_day u)" "\<not> sets_null (upd_start_time u)"
      "\<not> sets_null (upd_end_time u)" and ok: "\<not> ?rej" by auto
    have "no_overlap (map (\<lambda>r. if slot_id r = sid then set_slot_fields slot u else r) (slots db))"
    proof (rule no_overlap_replace [OF assms])
      show "slot_id (set_slot_fields slot u) = sid"
        using slot(2) by (simp add: set_slot_fields_keys)
    next
      fix y
      assume "y \<in> set (slots db)" "slot_id y \<noteq> sid"
        "timetable_id y = timetable_id (set_slot_fields slot u)"
        "day y = day (set_slot_fields slot u)"
      then show "\<not> (start_time y < end_time (set_slot_fields slot u) \<and>
            end_time y > start_time (set_slot_fields slot u))"
        using accepted_slot_clear [OF assms slot nn ok, of y]
        by (simp add: set_slot_fields_keys)
    qed
    with Some False show ?thesis by (auto simp: update_timetable_slot_def Let_def)
  qed
qed

text \<open>
  C4. Two slots of one timetable and day conflict if and only if the first starts
  before the second ends and ends after the second starts. Slot creation is rejected as
  a conflict exactly when a stored slot of the candidate's timetable and day stands in
  that relation to the candidate; slot update, when its check runs, exactly when a
  stored slot other than the updated one does, the candidate being the day and times
  the slot would have after the update. The queries of the two handlers return a stored
  slot of the candidate's timetable and day exactly in that case. So slots that touch,
  one ending when the other starts, never conflict.
\<close>

theorem slot_handlers_test_overlap:
  "(timetable_id c \<in> set (timetables db) \<longrightarrow>
      (fst (create_timetable_slot db c) =
         Inl (HTTPException 400 ''Time slot conflicts with existing slots'') \<longleftrightarrow>
       (\<exists>x \<in> set (slots db). timetable_id x = timetable_id c \<and> day x = day c \<and>
          start_time x < end_time c \<and> end_time x > start_time c))) \<and>
   (find (\<lambda>r. slot_id r = sid) (slots db) = Some slot \<and> conflict_check_runs u \<and>
    \<not> sets_null (upd_day u) \<and> \<not> sets_null (upd_start_time u) \<and>
    \<not> sets_null (upd_end_time u) \<longrightarrow>
      (fst (update_timetable_slot db sid u) =
         Inl (HTTPException 400 ''Time slot conflicts with existing slots'') \<longleftrightarrow>
       (\<exists>x \<in> set (slots db). slot_id x \<noteq> sid \<and> timetable_id x = timetable_id slot \<and>
          day x = day (set_slot_fields slot u) \<and>
          start_time x < end_time (set_slot_fields slot u) \<and>
          end_time x > start_time (set_slot_fields slot u)))) \<and>
   (x \<in> set rows \<and> timetable_id x = timetable_id c \<and> day x = day c \<longrightarrow>
      (x \<in> set (create_conflicts rows c) \<longleftrightarrow>
         start_time x < end_time c \<and> end_time x > start_time c)) \<and>
   (x \<in> set rows \<and> slot_id x \<noteq> sid \<and> timetable_id x = timetable_id c \<and> day x = day c \<longrightarrow>
      (x \<in> set (update_conflicts rows sid (timetable_id c)
                  (day c, start_time c, end_time c)) \<longleftrightarrow>
         start_time x < end_time c \<and> end_time x > start_time c))"
proof (intro conjI impI)
  assume "timetable_id c \<in> set (timetables db)"
  then show "fst (create_timetable_slot db c) =
         Inl (HTTPException 400 ''Time slot conflicts with existing slots'') \<longleftrightarrow>
       (\<exists>x \<in> set (slots db). timetable_id x = timetable_id c \<and> day x = day c \<and>
          start_time x < end_time c \<and> end_time x > start_time c)"
    by (auto simp: create_timetable_slot_def create_conflicts_def Let_def filter_empty_conv)
next
  assume a: "find (\<lambda>r. slot_id r = sid) (slots db) = Some slot \<and> conflict_check_runs u \<and>
    \<not> sets_null (upd_day u) \<and> \<not> sets_null (upd_start_time u) \<and>
    \<not> sets_null (upd_end_time u)"
  then have cand: "update_candidate slot u =
      (day (set_slot_fields slot u), start_time (set_slot_fields slot u),
       end_time (set_slot_fields slot u))"
    by (simp add: candidate_is_assigned)
  from a show "fst (update_timetable_slot db sid u) =
         Inl (HTTPException 400 ''Time slot conflicts with existing slots'') \<longleftrightarrow>
       (\<exists>x \<in> set (slots db). slot_id x \<noteq> sid \<and> timetable_id x = timetable_id slot \<and>
          day x = day (set_slot_fields slot u) \<and>
          start_time x < end_time (set_slot_fields slot u) \<and>
          end_time x > start_time (set_slot_fields slot u))"
    by (auto simp: update_timetable_slot_def cand update_conflicts_def Let_def
        filter_empty_conv)
next
  assume "x \<in> set rows \<and> timetable_id x = timetable_id c \<and> day x = day c"
  then show "x \<in> set (create_conflicts rows c) \<longleftrightarrow>
      start_time x < end_time c \<and> end_time x > start_time c"
    by (simp add: create_conflicts_def)
next
  assume "x \<in> set rows \<and> slot_id x \<noteq> sid \<and> timetable_id x = timetable_id c \<and>
    day x = day c"
  then show "x \<in> set (update_conflicts rows sid (timetable_id c)
                  (day c, start_time c, end_time c)) \<longleftrightarrow>
      start_time x < end_time c \<and> end_time x > start_time c"
    by (simp add: update_conflicts_def)
qed

text \<open>
  The examples of the specification. Beside the slot from 08:00 to 09:00, a slot from
  09:00 to 10:00 is created, and the slot from 09:00 to 10:00 is updated to the start it
  has: no conflict. Beside the slot from 08:00 to 09:30, creating the slot from 09:00
  to 10:00 is a conflict, and so is moving the start of the slot from 09:00 to 10:00 to
  08:30 beside the slot from 08:00 to 09:00.
\<close>

theorem slot_handlers_test_overlap_witness:
  "fst (create_timetable_slot ex_one_slot_db
       \<lparr>day = MONDAY, start_time = 540, end_time = 600, room_number = None,
        timetable_id = 1, subject_id = 2, teacher_id = None\<rparr>) = Inr slot_9_10 \<and>
   fst (update_timetable_slot ex_slot_db 2 (no_change\<lparr>upd_start_time := Given (Some 540)\<rparr>)) =
     Inr slot_9_10 \<and>
   fst (create_timetable_slot
       \<lparr>timetables = [1], slots = [slot_8_930], next_slot_id = 2\<rparr>
       \<lparr>day = MONDAY, start_time = 540, end_time = 600, room_number = None,
        timetable_id = 1, subject_id = 2, teacher_id = None\<rparr>) =
     Inl (HTTPException 400 ''Time slot conflicts with existing slots'') \<and>
   fst (update_timetable_slot ex_slot_db 2 (no_change\<lparr>upd_start_time := Given (Some 510)\<rparr>)) =
     Inl (HTTPException 400 ''Time slot conflicts with existing slots'')"
proof -
  let ?c = "\<lparr>day = MONDAY, start_time = 540, end_time = 600, room_number = None,
        timetable_id = 1, subject_id = 2, teacher_id = None\<rparr>"
  let ?db = "\<lparr>timetables = [1], slots = [slot_8_930], next_slot_id = 2\<rparr>"
  let ?u = "no_change\<lparr>upd_start_time := Given (Some 510)\<rparr>"
  note inst = slot_handlers_test_overlap
  have a: "fst (create_timetable_slot ex_one_slot_db ?c) = Inr slot_9_10"
    by (simp add: create_timetable_slot_def create_conflicts_def Let_def)
  have b: "fst (update_timetable_slot ex_slot_db 2
      (no_change\<lparr>upd_start_time := Given (Some 540)\<rparr>)) = Inr slot_9_10"
    by (simp add: update_timetable_slot_def conflict_check_runs_def update_conflicts_def
        update_candidate_def truthy_time_def set_slot_fields_def Let_def)
  have t: "timetable_id ?c \<in> set (timetables ?db)" by simp
  have "\<exists>x \<in> set (slots ?db). timetable_id x = timetable_id ?c \<and> day x = day ?c \<and>
      start_time x < end_time ?c \<and> end_time x > start_time ?c"
    by simp
  with inst [of ?c ?db, THEN conjunct1] t
  have c: "fst (create_timetable_slot ?db ?c) =
      Inl (HTTPException 400 ''Time slot conflicts with existing slots'')"
    by blast
  have h: "find (\<lambda>r. slot_id r = 2) (slots ex_slot_db) = Some slot_9_10 \<and>
      conflict_check_runs ?u \<and> \<not> sets_null (upd_day ?u) \<and>
      \<not> sets_null (upd_start_time ?u) \<and> \<not> sets_null (upd_end_time ?u)"
    by (simp add: conflict_check_runs_def truthy_time_def)
  have "\<exists>x \<in> set (slots ex_slot_db). slot_id x \<noteq> 2 \<and>
      timetable_id x = timetable_id slot_9_10 \<and>
      day x = day (set_slot_fields slot_9_10 ?u) \<and>
      start_time x < end_time (set_slot_fields slot_9_10 ?u) \<and>
      end_time x > start_time (set_slot_fields slot_9_10 ?u)"
    by (simp add: set_slot_fields_def)
  with inst [of _ ex_slot_db 2 slot_9_10 ?u, THEN conjunct2, THEN conjunct1] h
  have d: "fst (update_timetable_slot ex_slot_db 2 ?u) =
      Inl (HTTPException 400 ''Time slot conflicts with existing slots'')"
    by blast
  from a b c d show ?thesis by blast
qed

text \<open>
  C7, as stated: the conflict check of an update runs if and only if \<^verbatim>\<open>day\<close>,
  \<^verbatim>\<open>start_time\<close> or \<^verbatim>\<open>end_time\<close> is part of the request. A request that sends
  \<^verbatim>\<open>day\<close> as \<^verbatim>\<open>null\<close> has \<^verbatim>\<open>day\<close> among its fields, yet the test of line 293 reads
  \<^verbatim>\<open>None\<close> and skips the check; the assignment of \<^verbatim>\<open>None\<close> to the column then fails at
  the commit.
\<close>

theorem null_day_counterexample:
  "in_update_data (upd_day (no_change\<lparr>upd_day := Given None\<rparr>)) \<and>
   \<not> conflict_check_runs (no_change\<lparr>upd_day := Given None\<rparr>) \<and>
   update_timetable_slot ex_slot_db 2 (no_change\<lparr>upd_day := Given None\<rparr>) =
     (Inl IntegrityError, ex_slot_db)"
  by (simp add: conflict_check_runs_def update_timetable_slot_def)

text \<open>
  C7, amended: the conflict check of an update runs if and only if the request gives a
  value (not \<^verbatim>\<open>null\<close>) for \<^verbatim>\<open>day\<close>, \<^verbatim>\<open>start_time\<close> or \<^verbatim>\<open>end_time\<close>. When it gives none,
  the check is skipped: the update is never rejected as a conflict, and it is accepted
  whenever the slot exists and no required column is sent as \<^verbatim>\<open>null\<close>, even if another
  slot overlaps.
\<close>

theorem conflict_check_runs_iff_value_given:
  "(conflict_check_runs u \<longleftrightarrow>
      attr (upd_day u) \<noteq> None \<or> attr (upd_start_time u) \<noteq> None \<or>
      attr (upd_end_time u) \<noteq> None) \<and>
   (\<not> conflict_check_runs u \<longrightarrow>
      fst (update_timetable_slot db sid u) \<noteq>
        Inl (HTTPException 400 ''Time slot conflicts with existing slots'')) \<and>
   (\<not> conflict_check_runs u \<and> find (\<lambda>r. slot_id r = sid) (slots db) = Some slot \<and>
    \<not> sets_null (upd_day u) \<and> \<not> sets_null (upd_start_time u) \<and>
    \<not> sets_null (upd_end_time u) \<and> \<not> sets_null (upd_subject_id u) \<longrightarrow>
      fst (update_timetable_slot db sid u) = Inr (set_slot_fields slot u))"
proof (intro conjI impI)
  show "conflict_check_runs u \<longleftrightarrow>
      attr (upd_day u) \<noteq> None \<or> attr (upd_start_time u) \<noteq> None \<or>
      attr (upd_end_time u) \<noteq> None"
    by (rule check_runs_iff)
next
  assume "\<not> conflict_check_runs u"
  then show "fst (update_timetable_slot db sid u) \<noteq>
      Inl (HTTPException 400 ''Time slot conflicts with existing slots'')"
    by (simp add: update_timetable_slot_def Let_def split: option.splits)
next
  assume "\<not> conflict_check_runs u \<and> find (\<lambda>r. slot_id r = sid) (slots db) = Some slot \<and>
    \<not> sets_null (upd_day u) \<and> \<not> sets_null (upd_start_time u) \<and>
    \<not> sets_null (upd_end_time u) \<and> \<not> sets_null (upd_subject_id u)"
  then show "fst (update_timetable_slot db sid u) = Inr (set_slot_fields slot u)"
    by (simp add: update_timetable_slot_def Let_def)
qed

text \<open>
  Changing only the room of the slot from 08:00 to 09:30, which overlaps the slot from
  09:00 to 10:00, is accepted.
\<close>

theorem conflict_check_runs_iff_value_given_witness:
  "\<not> conflict_check_runs (no_change\<lparr>upd_room_number := Given (Some ''R2'')\<rparr>) \<and>
   fst (update_timetable_slot ex_overlap_db 1
          (no_change\<lparr>upd_room_number := Given (Some ''R2'')\<rparr>)) =
     Inr (slot_8_930\<lparr>room_number := Some ''R2''\<rparr>)"
proof -
  let ?u = "no_change\<lparr>upd_room_number := Given (Some ''R2'')\<rparr>"
  have skip: "\<not> conflict_check_runs ?u"
    by (simp add: conflict_check_runs_def)
  have found: "find (\<lambda>r. slot_id r = 1) (slots ex_overlap_db) = Some slot_8_930"
    by simp
  have "fst (update_timetable_slot ex_overlap_db 1 ?u) = Inr (set_slot_fields slot_8_930 ?u)"
    using conflict_check_runs_iff_value_given [of ?u ex_overlap_db 1 slot_8_930] skip found
    by simp
  then show ?thesis using skip by (simp add: set_slot_fields_def)
qed

text \<open>
  C8, as stated: a slot creation or update that conflicts is rejected without any
  mutation, and the rejection shows all the conflicting slots. The second half fails: a
  candidate from 08:20 to 09:40 conflicts with one slot in \<open>ex_one_slot_db\<close> and with two
  in \<open>ex_slot_db\<close>, and the handler leaves with the same exception, whose detail is a
  fixed text.
\<close>

theorem conflict_detail_counterexample:
  "create_conflicts (slots ex_one_slot_db)
       \<lparr>day = MONDAY, start_time = 500, end_time = 580, room_number = None,
        timetable_id = 1, subject_id = 3, teacher_id = None\<rparr> = [slot_8_9] \<and>
   create_conflicts (slots ex_slot_db)
       \<lparr>day = MONDAY, start_time = 500, end_time = 580, room_number = None,
        timetable_id = 1, subject_id = 3, teacher_id = None\<rparr> = [slot_8_9, slot_9_10] \<and>
   fst (create_timetable_slot ex_one_slot_db
       \<lparr>day = MONDAY, start_time = 500, end_time = 580, room_number = None,
        timetable_id = 1, subject_id = 3, teacher_id = None\<rparr>) =
     Inl (HTTPException 400 ''Time slot conflicts with existing slots'') \<and>
   fst (create_timetable_slot ex_slot_db
       \<lparr>day = MONDAY, start_time = 500, end_time = 580, room_number = None,
        timetable_id = 1, subject_id = 3, teacher_id = None\<rparr>) =
     Inl (HTTPException 400 ''Time slot conflicts with existing slots'')"
  by (simp add: create_conflicts_def create_timetable_slot_def)

text \<open>
  C8, amended: a slot creation whose timetable exists and whose query returns a
  conflicting slot, and a slot update whose conflict check runs and returns one, leave
  with HTTP 400 and the fixed detail \<^verbatim>\<open>Time slot conflicts with existing slots\<close>, and the
  stored tables are unchanged: no slot is inserted and no field is changed. The
  rejection names no conflicting slot.
\<close>

theorem conflicting_slot_rejected_unchanged:
  "(timetable_id c \<in> set (timetables db) \<and> create_conflicts (slots db) c \<noteq> [] \<longrightarrow>
      create_timetable_slot db c =
        (Inl (HTTPException 400 ''Time slot conflicts with existing slots''), db)) \<and>
   (find (\<lambda>r. slot_id r = sid) (slots db) = Some slot \<and> conflict_check_runs u \<and>
    update_conflicts (slots db) sid (timetable_id slot) (update_candidate slot u) \<noteq> [] \<longrightarrow>
      update_timetable_slot db sid u =
        (Inl (HTTPException 400 ''Time slot conflicts with existing slots''), db))"
  by (simp add: create_timetable_slot_def update_timetable_slot_def)

text \<open>
  Creating a slot from 08:20 to 09:40, and moving the start of the slot from 09:00 to
  10:00 back to 08:30, are both rejected with the tables unchanged.
\<close>

theorem conflicting_slot_rejected_unchanged_witness:
  "create_timetable_slot ex_slot_db
       \<lparr>day = MONDAY, start_time = 500, end_time = 580, room_number = None,
        timetable_id = 1, subject_id = 3, teacher_id = None\<rparr> =
     (Inl (HTTPException 400 ''Time slot conflicts with existing slots''), ex_slot_db) \<and>
   update_timetable_slot ex_slot_db 2 (no_change\<lparr>upd_start_time := Given (Some 510)\<rparr>) =
     (Inl (HTTPException 400 ''Time slot conflicts with existing slots''), ex_slot_db)"
proof -
  let ?c = "\<lparr>day = MONDAY, start_time = 500, end_time = 580, room_number = None,
        timetable_id = 1, subject_id = 3, teacher_id = None\<rparr>"
  let ?u = "no_change\<lparr>upd_start_time := Given (Some 510)\<rparr>"
  have c1: "timetable_id ?c \<in> set (timetables ex_slot_db)" by simp
  have c2: "create_conflicts (slots ex_slot_db) ?c \<noteq> []"
    by (simp add: create_conflicts_def)
  have u1: "find (\<lambda>r. slot_id r = 2) (slots ex_slot_db) = Some slot_9_10" by simp
  have u2: "conflict_check_runs ?u"
    by (simp add: conflict_check_runs_def truthy_time_def)
  have u3: "update_conflicts (slots ex_slot_db) 2 (timetable_id slot_9_10)
      (update_candidate slot_9_10 ?u) \<noteq> []"
    by (simp add: update_conflicts_def update_candidate_def truthy_time_def)
  have a: "create_timetable_slot ex_slot_db ?c =
     (Inl (HTTPException 400 ''Time slot conflicts with existing slots''), ex_slot_db)"
    using conflicting_slot_rejected_unchanged [THEN conjunct1, of ?c ex_slot_db] c1 c2
    by blast
  have b: "update_timetable_slot ex_slot_db 2 ?u =
     (Inl (HTTPException 400 ''Time slot conflicts with existing slots''), ex_slot_db)"
    using conflicting_slot_rejected_unchanged [THEN conjunct2, of 2 ex_slot_db slot_9_10 ?u]
      u1 u2 u3
    by blast
  from a b show ?thesis by blast
qed




text \<open>
  C10, as stated: an update whose \<^verbatim>\<open>start_time\<close> (or \<^verbatim>\<open>end_time\<close>) is midnight has its
  conflict check evaluated against the stored time, and so can be accepted and leave two
  overlapping slots. A \<^verbatim>\<open>datetime.time\<close> of midnight is true, so the check uses midnight
  itself: moving the start of the slot from 02:00 to 03:00 to midnight is checked as
  00:00 to 03:00, not as 02:00 to 03:00, and is rejected for the slot from 00:30 to
  01:00.
\<close>

theorem midnight_start_counterexample:
  "start_time slot_2_3 = 120 \<and>
   update_candidate slot_2_3 (no_change\<lparr>upd_start_time := Given (Some 0)\<rparr>) =
     (MONDAY, 0, 180) \<and>
   update_timetable_slot ex_night_db 2 (no_change\<lparr>upd_start_time := Given (Some 0)\<rparr>) =
     (Inl (HTTPException 400 ''Time slot conflicts with existing slots''), ex_night_db)"
  by (simp add: update_candidate_def truthy_time_def update_timetable_slot_def
      conflict_check_runs_def update_conflicts_def)

text \<open>
  C10, amended: in the slot update the presence of \<^verbatim>\<open>day\<close>, \<^verbatim>\<open>start_time\<close> and
  \<^verbatim>\<open>end_time\<close> is decided by truth value and the candidate falls back to the stored
  values through \<^verbatim>\<open>or\<close>; since every day and every time, midnight included, is true,
  this differs from the field being set in the request only for a field sent as
  \<^verbatim>\<open>null\<close>. For a request that sends none of the three as \<^verbatim>\<open>null\<close>, the conflict check
  is asked about exactly the day and times that the assignment then writes. No update
  leaves two overlapping slots on one timetable and day where there were none before.
\<close>

theorem update_checks_what_it_writes:
  "((in_update_data (upd_day u) \<or> in_update_data (upd_start_time u) \<or>
     in_update_data (upd_end_time u)) \<and> \<not> conflict_check_runs u \<longrightarrow>
      sets_null (upd_day u) \<or> sets_null (upd_start_time u) \<or> sets_null (upd_end_time u)) \<and>
   (\<not> sets_null (upd_day u) \<and> \<not> sets_null (upd_start_time u) \<and>
    \<not> sets_null (upd_end_time u) \<longrightarrow>
      update_candidate slot u =
        (day (set_slot_fields slot u), start_time (set_slot_fields slot u),
         end_time (set_slot_fields slot u))) \<and>
   (no_overlap (slots db) \<longrightarrow> no_overlap (slots (snd (update_timetable_slot db sid u))))"
proof (intro conjI impI)
  assume a: "(in_update_data (upd_day u) \<or> in_update_data (upd_start_time u) \<or>
     in_update_data (upd_end_time u)) \<and> \<not> conflict_check_runs u"
  then have none: "attr (upd_day u) = None" "attr (upd_start_time u) = None"
    "attr (upd_end_time u) = None"
    by (simp_all add: check_runs_iff)
  have n: "in_update_data f \<Longrightarrow> attr f = None \<Longrightarrow> sets_null f" for f :: "'x field"
    by (cases f rule: sets_null.cases) simp_all
  from a none n [of "upd_day u"] n [of "upd_start_time u"] n [of "upd_end_time u"]
  show "sets_null (upd_day u) \<or> sets_null (upd_start_time u) \<or> sets_null (upd_end_time u)"
    by blast
next
  assume "\<not> sets_null (upd_day u) \<and> \<not> sets_null (upd_start_time u) \<and>
    \<not> sets_null (upd_end_time u)"
  then show "update_candidate slot u =
        (day (set_slot_fields slot u), start_time (set_slot_fields slot u),
         end_time (set_slot_fields slot u))"
    by (simp add: candidate_is_assigned)
next
  assume "no_overlap (slots db)"
  then show "no_overlap (slots (snd (update_timetable_slot db sid u)))"
    by (rule update_keeps_no_overlap)
qed

text \<open>
  Moving the start of the slot from 00:30 to 01:00 to midnight is checked as 00:00 to
  01:00 and accepted, and no two slots overlap afterwards.
\<close>

theorem update_checks_what_it_writes_witness:
  "no_overlap (slots ex_night_db) \<and>
   update_candidate slot_0030_1 (no_change\<lparr>upd_start_time := Given (Some 0)\<rparr>) =
     (MONDAY, 0, 60) \<and>
   fst (update_timetable_slot ex_night_db 1 (no_change\<lparr>upd_start_time := Given (Some 0)\<rparr>)) =
     Inr (slot_0030_1\<lparr>start_time := 0\<rparr>) \<and>
   no_overlap (slots (snd (update_timetable_slot ex_night_db 1
                             (no_change\<lparr>upd_start_time := Given (Some 0)\<rparr>))))"
proof -
  let ?u = "no_change\<lparr>upd_start_time := Given (Some 0)\<rparr>"
  note inst = update_checks_what_it_writes [of ?u slot_0030_1 ex_night_db 1]
  have inv: "no_overlap (slots ex_night_db)"
    by (simp add: no_overlap_def)
  have nn: "\<not> sets_null (upd_day ?u) \<and> \<not> sets_null (upd_start_time ?u) \<and>
    \<not> sets_null (upd_end_time ?u)"
    by simp
  from inst nn have "update_candidate slot_0030_1 ?u =
        (day (set_slot_fields slot_0030_1 ?u), start_time (set_slot_fields slot_0030_1 ?u),
         end_time (set_slot_fields slot_0030_1 ?u))"
    by blast
  then have cand: "update_candidate slot_0030_1 ?u = (MONDAY, 0, 60)"
    by (simp add: set_slot_fields_def)
  from inst inv have after: "no_overlap (slots (snd (update_timetable_slot ex_night_db 1 ?u)))"
    by blast
  have res: "fst (update_timetable_slot ex_night_db 1 ?u) = Inr (slot_0030_1\<lparr>start_time := 0\<rparr>)"
    by (simp add: update_timetable_slot_def conflict_check_runs_def update_conflicts_def
        update_candidate_def truthy_time_def set_slot_fields_def Let_def)
  from inv cand res after show ?thesis by blast
qed

end
